theory Spec2Isabelle
  imports Complex_Main
begin

section \<open>JavaScript numbers\<close>

text \<open>
  The colour arithmetic of the theme engine runs on JavaScript numbers, which are IEEE 754
  binary64 values. A finite value is modelled exactly, as a pair of integers
  \<open>Dbl m e\<close> that stands for \<open>m * 2 ^ e\<close>; every arithmetic operation computes the
  exact result and rounds it to 53 significant bits, ties to even, as the hardware does.
  Overflow, subnormal numbers, infinities and NaN are outside the model: the values of
  this program are products and sums of integers below 256 and factors between -1 and 1.
\<close>

datatype double = Dbl (mant: int) (expo: int)

definition dbl_value :: "double \<Rightarrow> rat" where
  "dbl_value x =
     (if 0 \<le> expo x then of_int (mant x) * 2 ^ nat (expo x)
      else of_int (mant x) / 2 ^ nat (- expo x))"

text \<open>The number of binary digits of a positive integer.\<close>

function bitlen :: "int \<Rightarrow> nat" where
  "bitlen n = (if n \<le> 0 then 0 else Suc (bitlen (n div 2)))"
  by pat_completeness auto
termination
  by (relation "measure nat") auto

declare bitlen.simps [simp del]

text \<open>Rounding the exact value \<open>m * 2 ^ e\<close> to 53 significant bits, ties to even.\<close>

definition round53 :: "int \<Rightarrow> int \<Rightarrow> double" where
  "round53 m e =
     (let a = \<bar>m\<bar>; n = bitlen a in
      if n \<le> 53 then Dbl m e
      else
        let k = n - 53;
            q = a div 2 ^ k;
            rest = a mod 2 ^ k;
            half = 2 ^ (k - 1);
            q' = (if half < rest \<or> (rest = half \<and> odd q) then q + 1 else q)
        in Dbl (sgn m * q') (e + int k))"

text \<open>
  A decimal literal of the source (\<open>0.95\<close> is \<open>dbl_lit 95 100\<close>) denotes the double
  nearest to the fraction \<open>p / q\<close>. The quotient is taken with at least two bits more
  than the 53 that are kept, the last one recording whether anything was cut off, so that
  the final rounding is the rounding of the exact fraction.
\<close>

definition dbl_lit :: "int \<Rightarrow> int \<Rightarrow> double" where
  "dbl_lit p q =
     (if p = 0 then Dbl 0 0
      else
        let s = 56 - (int (bitlen p) - int (bitlen q));
            num = (if 0 \<le> s then p * 2 ^ nat s else p);
            den = (if 0 \<le> s then q else q * 2 ^ nat (- s));
            t = num div den;
            t' = (if num mod den \<noteq> 0 \<and> even t then t + 1 else t)
        in round53 t' (- s))"

definition dbl_of_int :: "int \<Rightarrow> double" where
  "dbl_of_int n = round53 n 0"

fun dmul :: "double \<Rightarrow> double \<Rightarrow> double" where
  "dmul (Dbl m1 e1) (Dbl m2 e2) = round53 (m1 * m2) (e1 + e2)"

fun dadd :: "double \<Rightarrow> double \<Rightarrow> double" where
  "dadd (Dbl m1 e1) (Dbl m2 e2) =
     (let e = min e1 e2
      in round53 (m1 * 2 ^ nat (e1 - e) + m2 * 2 ^ nat (e2 - e)) e)"

fun dneg :: "double \<Rightarrow> double" where
  "dneg (Dbl m e) = Dbl (- m) e"

definition dsub :: "double \<Rightarrow> double \<Rightarrow> double" where
  "dsub x y = dadd x (dneg y)"

definition dbl_pos :: "double \<Rightarrow> bool" where
  "dbl_pos x = (0 < mant x)"

text \<open>
  \<open>Math.round\<close>: the integer nearest to the argument, the one towards plus infinity
  when two are equally near, that is \<open>floor (x + 1/2)\<close> computed exactly.
\<close>

fun Math_round :: "double \<Rightarrow> int" where
  "Math_round (Dbl m e) =
     (if 0 \<le> e then m * 2 ^ nat e
      else (m + 2 ^ (nat (- e) - 1)) div 2 ^ nat (- e))"

section \<open>Theme engine: colour helpers\<close>

record rgb =
  r :: int
  g :: int
  b :: int

text \<open>One character of the class \<open>[a-f\d]\<close> under the flag \<open>i\<close>, with its value.\<close>

definition hex_digit :: "char \<Rightarrow> int option" where
  "hex_digit c =
     (let n = (of_char c :: nat) in
      if 48 \<le> n \<and> n \<le> 57 then Some (int n - 48)
      else if 97 \<le> n \<and> n \<le> 102 then Some (int n - 87)
      else if 65 \<le> n \<and> n \<le> 70 then Some (int n - 55)
      else None)"

text \<open>\<open>parseInt(s, 16)\<close> on a group of two hexadecimal digits.\<close>

definition parseInt16 :: "int \<Rightarrow> int \<Rightarrow> int" where
  "parseInt16 hi lo = 16 * hi + lo"

text \<open>
  \<open>hexToRgb\<close>: the regular expression \<open>/^#?([a-f\d]{2})([a-f\d]{2})([a-f\d]{2})$/i\<close>.
  A leading \<open>#\<close> is optional; since \<open>#\<close> is no hexadecimal digit, matching with
  backtracking is the same as dropping one leading \<open>#\<close> and asking for exactly six digits.
\<close>

definition strip_hash :: "string \<Rightarrow> string" where
  "strip_hash hex = (case hex of [] \<Rightarrow> [] | c # rest \<Rightarrow> if c = CHR ''#'' then rest else hex)"

fun six_digits :: "int option list \<Rightarrow> rgb option" where
  "six_digits [Some d1, Some d2, Some d3, Some d4, Some d5, Some d6] =
     Some \<lparr>r = parseInt16 d1 d2, g = parseInt16 d3 d4, b = parseInt16 d5 d6\<rparr>"
| "six_digits _ = None"

definition hexToRgb :: "string \<Rightarrow> rgb option" where
  "hexToRgb hex = six_digits (map hex_digit (strip_hash hex))"

text \<open>The inner function \<open>adjust\<close> of \<open>adjustLightness\<close>, with \<open>amount\<close> made explicit.\<close>

definition adjust :: "double \<Rightarrow> int \<Rightarrow> int" where
  "adjust amount v =
     (if dbl_pos amount
      then Math_round (dadd (dbl_of_int v) (dmul (dsub (dbl_of_int 255) (dbl_of_int v)) amount))
      else Math_round (dmul (dbl_of_int v) (dadd (dbl_of_int 1) amount)))"

definition adjustLightness :: "rgb \<Rightarrow> double \<Rightarrow> rgb" where
  "adjustLightness c amount =
     \<lparr>r = max 0 (min 255 (adjust amount (r c))),
      g = max 0 (min 255 (adjust amount (g c))),
      b = max 0 (min 255 (adjust amount (b c)))\<rparr>"

text \<open>The table \<open>shades\<close> of \<open>generateColorShades\<close>: level name and lightness.\<close>

definition shades :: "(string \<times> double) list" where
  "shades =
     [(''50'', dbl_lit 95 100),
      (''100'', dbl_lit 9 10),
      (''200'', dbl_lit 8 10),
      (''300'', dbl_lit 6 10),
      (''400'', dbl_lit 4 10),
      (''500'', dbl_of_int 0),
      (''600'', dneg (dbl_lit 1 10)),
      (''700'', dneg (dbl_lit 2 10)),
      (''800'', dneg (dbl_lit 3 10)),
      (''900'', dneg (dbl_lit 4 10))]"

section \<open>Theme engine: the document and the customization record\<close>

text \<open>
  The part of the browser document that the theme engine writes: the custom properties
  declared on \<open>document.documentElement.style\<close> (name and value), the font of
  \<open>document.body\<close>, the document title, and the \<open>href\<close> of every \<open>link\<close> element
  whose \<open>rel\<close> contains \<open>icon\<close>, in document order.
\<close>

record document =
  style :: "string \<rightharpoonup> string"
  body_fontFamily :: "string option"
  title :: string
  icon_links :: "string list"

record CustomizationColors =
  primary :: string
  secondary :: string
  accent :: string
  background :: string
  sidebar :: string
  text_primary :: string
  text_secondary :: string
  button_primary :: string
  button_text :: string

record CustomizationBranding =
  app_name :: "string option"
  app_tagline :: "string option"

record CustomizationTypography =
  font_family :: "string option"
  font_size_base :: string
  font_size_heading :: string

record CustomizationLayout =
  border_radius :: string
  spacing_unit :: string

text \<open>
  The interface \<open>Customization\<close>. \<open>null\<close> is \<open>None\<close>. The fields \<open>typography\<close> and
  \<open>layout\<close> are options because \<open>applyTheme\<close> tests them before use. The field
  \<open>id\<close> is named \<open>customization_id\<close>; \<open>custom_settings\<close>, which the engine never
  reads, is left out.
\<close>

record Customization =
  customization_id :: string
  organization_name :: string
  logo_url :: "string option"
  logo_dark_url :: "string option"
  favicon_url :: "string option"
  colors :: CustomizationColors
  typography :: "CustomizationTypography option"
  layout :: "CustomizationLayout option"
  branding :: CustomizationBranding
  is_active :: bool
  created_at :: string
  updated_at :: string

text \<open>
  \<open>DEFAULT_CUSTOMIZATION\<close>. Its two time stamps are \<open>new Date().toISOString()\<close> at
  module load, a parameter here.
\<close>

definition DEFAULT_CUSTOMIZATION :: "string \<Rightarrow> Customization" where
  "DEFAULT_CUSTOMIZATION now =
     \<lparr>customization_id = ''default'',
      organization_name = ''default'',
      logo_url = None,
      logo_dark_url = None,
      favicon_url = None,
      colors =
        \<lparr>primary = ''#0ea5e9'',
         secondary = ''#d946ef'',
         accent = ''#8b5cf6'',
         background = ''#ffffff'',
         sidebar = ''#ffffff'',
         text_primary = ''#111827'',
         text_secondary = ''#6b7280'',
         button_primary = ''#0ea5e9'',
         button_text = ''#ffffff''\<rparr>,
      typography =
        Some \<lparr>font_family = None, font_size_base = ''14px'', font_size_heading = ''24px''\<rparr>,
      layout = Some \<lparr>border_radius = ''8px'', spacing_unit = ''16px''\<rparr>,
      branding = \<lparr>app_name = None, app_tagline = None\<rparr>,
      is_active = True,
      created_at = now,
      updated_at = now\<rparr>"

text \<open>A value used as a condition: \<open>null\<close>, \<open>undefined\<close> and the empty string are falsy.\<close>

definition truthy :: "string option \<Rightarrow> bool" where
  "truthy v = (case v of None \<Rightarrow> False | Some s \<Rightarrow> s \<noteq> [])"

text \<open>A number in a template literal: the decimal digits of an integer.\<close>

function decimal :: "nat \<Rightarrow> string" where
  "decimal n =
     (if n < 10 then [char_of (48 + n)]
      else decimal (n div 10) @ [char_of (48 + n mod 10)])"
  by pat_completeness auto
termination
  by (relation "measure (\<lambda>n. n)") auto

declare decimal.simps [simp del]

definition js_number :: "int \<Rightarrow> string" where
  "js_number n = (if n < 0 then ''-'' @ decimal (nat (- n)) else decimal (nat n))"

text \<open>
  \<open>style.setProperty(name, value)\<close>: the empty string removes the declaration of the
  property; any other value of this program (a colour string, a length, a font name or
  an \<open>rgb(...)\<close> text) is declared as it is written.
\<close>

definition setProperty :: "string \<Rightarrow> string \<Rightarrow> document \<Rightarrow> document" where
  "setProperty name v d =
     (if v = [] then d\<lparr>style := (style d)(name := None)\<rparr>
      else d\<lparr>style := (style d)(name \<mapsto> v)\<rparr>)"

definition shade_variable :: "string \<Rightarrow> string \<Rightarrow> string" where
  "shade_variable name level = ''--color-'' @ name @ ''-'' @ level"

definition rgb_css :: "rgb \<Rightarrow> string" where
  "rgb_css c = ''rgb('' @ js_number (r c) @ '', '' @ js_number (g c) @ '', '' @ js_number (b c) @ '')''"

definition rgb_triple :: "rgb \<Rightarrow> string" where
  "rgb_triple c = js_number (r c) @ '', '' @ js_number (g c) @ '', '' @ js_number (b c)"

text \<open>The body of \<open>shades.forEach\<close>, and \<open>generateColorShades\<close>.\<close>

definition set_shade :: "rgb \<Rightarrow> string \<Rightarrow> document \<Rightarrow> string \<times> double \<Rightarrow> document" where
  "set_shade c name d shade =
     setProperty (shade_variable name (fst shade)) (rgb_css (adjustLightness c (snd shade))) d"

definition generateColorShades :: "string \<Rightarrow> string \<Rightarrow> document \<Rightarrow> document" where
  "generateColorShades baseColor name d =
     (case hexToRgb baseColor of
        None \<Rightarrow> d
      | Some c \<Rightarrow> foldl (set_shade c name) d shades)"

definition updateFavicon :: "string \<Rightarrow> document \<Rightarrow> document" where
  "updateFavicon faviconUrl d =
     (case icon_links d of
        [] \<Rightarrow> d\<lparr>icon_links := [faviconUrl]\<rparr>
      | link # links \<Rightarrow> d\<lparr>icon_links := faviconUrl # links\<rparr>)"

text \<open>
  \<open>applyTheme\<close>, one definition per block of the source, in the order of the source. The
  first argument of \<open>apply_favicon\<close> is the environment variable \<open>VITE_API_URL\<close>.
\<close>

definition apply_colors :: "CustomizationColors \<Rightarrow> document \<Rightarrow> document" where
  "apply_colors cs d =
     setProperty ''--color-button-text'' (button_text cs)
      (setProperty ''--color-button-primary'' (button_primary cs)
      (setProperty ''--color-text-secondary'' (text_secondary cs)
      (setProperty ''--color-text-primary'' (text_primary cs)
      (setProperty ''--color-sidebar'' (sidebar cs)
      (setProperty ''--color-background'' (background cs)
      (setProperty ''--color-accent'' (accent cs)
      (setProperty ''--color-secondary'' (secondary cs)
      (setProperty ''--color-primary'' (primary cs) d))))))))"

definition apply_typography :: "CustomizationTypography option \<Rightarrow> document \<Rightarrow> document" where
  "apply_typography ty d =
     (case ty of
        None \<Rightarrow> d
      | Some t \<Rightarrow>
          let d1 =
            (if truthy (font_family t)
             then (setProperty ''--font-family'' (the (font_family t)) d)
                    \<lparr>body_fontFamily := font_family t\<rparr>
             else d)
          in setProperty ''--font-size-heading'' (font_size_heading t)
               (setProperty ''--font-size-base'' (font_size_base t) d1))"

definition apply_layout :: "CustomizationLayout option \<Rightarrow> document \<Rightarrow> document" where
  "apply_layout ly d =
     (case ly of
        None \<Rightarrow> d
      | Some l \<Rightarrow>
          setProperty ''--spacing-unit'' (spacing_unit l)
            (setProperty ''--border-radius'' (border_radius l) d))"

definition apply_shades :: "CustomizationColors \<Rightarrow> document \<Rightarrow> document" where
  "apply_shades cs d =
     (case hexToRgb (primary cs) of
        None \<Rightarrow> d
      | Some c \<Rightarrow>
          generateColorShades (accent cs) ''accent''
            (generateColorShades (secondary cs) ''secondary''
              (generateColorShades (primary cs) ''primary''
                (setProperty ''--color-primary-rgb'' (rgb_triple c) d))))"

definition startsWith :: "string \<Rightarrow> string \<Rightarrow> bool" where
  "startsWith s p = (take (length p) s = p)"

definition apply_favicon :: "string option \<Rightarrow> string option \<Rightarrow> document \<Rightarrow> document" where
  "apply_favicon vite_api_url favicon d =
     (if truthy favicon then
        let API_BASE = (if truthy vite_api_url then the vite_api_url else ''http://localhost:8000'');
            fullFaviconUrl =
              (if startsWith (the favicon) ''http'' then the favicon else API_BASE @ the favicon)
        in updateFavicon fullFaviconUrl d
      else d)"

definition apply_title :: "CustomizationBranding \<Rightarrow> document \<Rightarrow> document" where
  "apply_title br d = (if truthy (app_name br) then d\<lparr>title := the (app_name br)\<rparr> else d)"

definition applyTheme :: "string option \<Rightarrow> Customization \<Rightarrow> document \<Rightarrow> document" where
  "applyTheme vite_api_url customization d =
     apply_title (branding customization)
      (apply_favicon vite_api_url (favicon_url customization)
      (apply_shades (colors customization)
      (apply_layout (layout customization)
      (apply_typography (typography customization)
      (apply_colors (colors customization) d)))))"

text \<open>
  The state of \<open>CustomizationProvider\<close>: its two state variables and the document.
  \<open>loadCustomization\<close> receives the outcome of \<open>api.getCurrentCustomization()\<close>:
  \<open>Inl\<close> a rejection, \<open>Inr\<close> the record. A result \<open>Inl\<close> would be an exception leaving
  \<open>loadCustomization\<close>; the three steps are the \<open>try\<close>, the \<open>catch\<close> and the
  \<open>finally\<close> block.
\<close>

record provider =
  customization :: "Customization option"
  loading :: bool
  page :: document

definition loadCustomization ::
  "string option \<Rightarrow> string \<Rightarrow> 'e + Customization \<Rightarrow> provider \<Rightarrow> 'e + provider" where
  "loadCustomization vite_api_url now fetched s =
     (let tried =
            (case fetched of
               Inl err \<Rightarrow> Inl err
             | Inr data \<Rightarrow>
                 Inr (s\<lparr>customization := Some data, page := applyTheme vite_api_url data (page s)\<rparr>));
          caught =
            (case tried of
               Inl err \<Rightarrow>
                 Inr (s\<lparr>customization := Some (DEFAULT_CUSTOMIZATION now),
                        page := applyTheme vite_api_url (DEFAULT_CUSTOMIZATION now) (page s)\<rparr>)
             | Inr s1 \<Rightarrow> Inr s1)
      in case caught of
           Inl err \<Rightarrow> Inl err
         | Inr s2 \<Rightarrow> Inr (s2\<lparr>loading := False\<rparr>))"

text \<open>
  Every custom property that \<open>applyTheme\<close> and \<open>generateColorShades\<close> can write, in the
  order of the \<open>setProperty\<close> calls of the source.
\<close>

definition theme_variables :: "string list" where
  "theme_variables =
     [''--color-primary'', ''--color-secondary'', ''--color-accent'', ''--color-background'',
      ''--color-sidebar'', ''--color-text-primary'', ''--color-text-secondary'',
      ''--color-button-primary'', ''--color-button-text'',
      ''--font-family'', ''--font-size-base'', ''--font-size-heading'',
      ''--border-radius'', ''--spacing-unit'', ''--color-primary-rgb'']
     @ map (shade_variable ''primary'') (map fst shades)
     @ map (shade_variable ''secondary'') (map fst shades)
     @ map (shade_variable ''accent'') (map fst shades)"

section \<open>Authenticated API client\<close>

text \<open>
  What the client reads of a response: the status, and of the body \<open>data\<close> the fields
  \<open>access_token\<close> (read after a refresh) and \<open>detail\<close> (read on a 422). An entry of a
  \<open>detail\<close> array has a path \<open>loc\<close>, its items already as strings, and a message.
\<close>

record validation_item =
  loc :: "string list option"
  msg :: string

datatype detail = DetailList "validation_item list" | DetailOther string

record response =
  status :: nat
  access_token :: "string option"
  detail :: "detail option"

text \<open>
  A rejection: an axios error with a response, an axios error without one (its message),
  or a plain \<open>new Error(message)\<close>. The \<open>config\<close> of an axios error is the request, which
  the functions below take as their own argument.
\<close>

datatype api_error = HttpError response | NetworkError string | PlainError string

text \<open>A request configuration; \<open>retry\<close> is the custom flag \<open>_retry\<close>.\<close>

record request =
  url :: string
  http_method :: string
  payload :: "(string \<times> string) list"
  authorization :: "string option"
  retry :: bool

text \<open>
  The backend is outside the repository: it is a parameter. It answers a request, and a
  post to \<open>/auth/refresh\<close> with a refresh token, depending on the traffic so far.
\<close>

datatype event = Sent request | RefreshPosted string

datatype reply = Arrived response | NoResponse string

record server =
  answer :: "event list \<Rightarrow> request \<Rightarrow> reply"
  refresh :: "event list \<Rightarrow> string \<Rightarrow> reply"

text \<open>
  The browser state the client touches: \<open>localStorage\<close>, \<open>window.location.pathname\<close>,
  the values assigned to \<open>window.location.href\<close>, and the calls put on the network.
\<close>

record browser =
  localStorage :: "string \<rightharpoonup> string"
  pathname :: string
  href_assigned :: "string list"
  wire :: "event list"

text \<open>axios resolves a promise for a status from 200 to 299 and rejects it otherwise.\<close>

definition settle :: "reply \<Rightarrow> api_error + response" where
  "settle rp =
     (case rp of
        Arrived resp \<Rightarrow>
          if 200 \<le> status resp \<and> status resp < 300 then Inr resp else Inl (HttpError resp)
      | NoResponse m \<Rightarrow> Inl (NetworkError m))"

text \<open>\<open>error.response?.status\<close>\<close>

definition status_of :: "api_error \<Rightarrow> nat option" where
  "status_of err = (case err of HttpError resp \<Rightarrow> Some (status resp) | _ \<Rightarrow> None)"

text \<open>A value in a template literal or stored by \<open>setItem\<close>: \<open>undefined\<close> is spelled out.\<close>

definition js_string :: "string option \<Rightarrow> string" where
  "js_string v = (case v of None \<Rightarrow> ''undefined'' | Some s \<Rightarrow> s)"

text \<open>\<open>String.prototype.includes\<close>\<close>

fun str_includes :: "string \<Rightarrow> string \<Rightarrow> bool" where
  "str_includes [] p = (p = [])"
| "str_includes (c # cs) p = (take (length p) (c # cs) = p \<or> str_includes cs p)"

text \<open>The request interceptor.\<close>

definition request_interceptor :: "browser \<Rightarrow> request \<Rightarrow> request" where
  "request_interceptor w config =
     (let token = localStorage w ''access_token''
      in if truthy token then config\<lparr>authorization := Some (''Bearer '' @ the token)\<rparr>
         else config)"

text \<open>The two branches of the response interceptor that give the session up.\<close>

definition no_refresh_token :: "browser \<Rightarrow> browser" where
  "no_refresh_token w =
     w\<lparr>localStorage := Map.empty, href_assigned := href_assigned w @ [''/login'']\<rparr>"

definition refresh_failed :: "browser \<Rightarrow> browser" where
  "refresh_failed w =
     w\<lparr>localStorage := (localStorage w)(''access_token'' := None, ''refresh_token'' := None),
       href_assigned :=
         (if str_includes (pathname w) ''/login'' then href_assigned w
          else href_assigned w @ [''/login''])\<rparr>"

text \<open>
  A call \<open>this.api(config)\<close>: the request interceptor, the network, the response
  interceptor. A resolved response passes; a rejection goes through the error handler,
  whose 401 branch calls \<open>this.api(originalRequest)\<close> again, with the flag set.
\<close>

function api_request ::
  "server \<Rightarrow> request \<Rightarrow> browser \<Rightarrow> (api_error + response) \<times> browser" where
  "api_request srv config w =
     (let originalRequest = request_interceptor w config;
          w1 = w\<lparr>wire := wire w @ [Sent originalRequest]\<rparr>
      in case settle (answer srv (wire w) originalRequest) of
           Inr resp \<Rightarrow> (Inr resp, w1)
         | Inl err \<Rightarrow>
             if status_of err = Some 401 \<and> \<not> retry originalRequest then
               let refreshToken = localStorage w1 ''refresh_token'' in
               if \<not> truthy refreshToken then (Inl err, no_refresh_token w1)
               else
                 let w2 = w1\<lparr>wire := wire w1 @ [RefreshPosted (the refreshToken)]\<rparr> in
                 case settle (refresh srv (wire w1) (the refreshToken)) of
                   Inr rresp \<Rightarrow>
                     let token = js_string (access_token rresp);
                         w3 = w2\<lparr>localStorage := (localStorage w2)(''access_token'' \<mapsto> token)\<rparr>
                     in api_request srv
                          (originalRequest
                             \<lparr>retry := True, authorization := Some (''Bearer '' @ token)\<rparr>)
                          w3
                 | Inl refreshError \<Rightarrow> (Inl refreshError, refresh_failed w2)
             else (Inl err, w1))"
  by pat_completeness auto
termination
  by (relation "measure (\<lambda>(srv, config, w). if retry config then 0 else 1)")
     (auto simp: request_interceptor_def Let_def split: if_splits)

declare api_request.simps [simp del]

text \<open>
  \<open>handleValidationError\<close>: \<open>Some e\<close> when it throws \<open>e\<close>, \<open>None\<close> when it returns.
  \<open>join\<close> is \<open>Array.prototype.join\<close>.
\<close>

fun join :: "string \<Rightarrow> string list \<Rightarrow> string" where
  "join sep [] = []"
| "join sep [x] = x"
| "join sep (x # y # ys) = x @ sep @ join sep (y # ys)"

definition item_message :: "validation_item \<Rightarrow> string" where
  "item_message err = js_string (map_option (join ''.'') (loc err)) @ '': '' @ msg err"

definition handleValidationError :: "api_error \<Rightarrow> api_error option" where
  "handleValidationError err =
     (case err of
        HttpError resp \<Rightarrow>
          (case detail resp of
             Some (DetailList validationErrors) \<Rightarrow>
               Some (PlainError (join ''; '' (map item_message validationErrors)))
           | _ \<Rightarrow> None)
      | _ \<Rightarrow> None)"

text \<open>The \<open>catch\<close> block shared by \<open>login\<close> and \<open>register\<close>.\<close>

definition rethrow_validation :: "api_error \<Rightarrow> api_error" where
  "rethrow_validation err =
     (if status_of err = Some 422 then
        (case handleValidationError err of Some thrown \<Rightarrow> thrown | None \<Rightarrow> err)
      else err)"

definition login_request :: "string \<Rightarrow> string \<Rightarrow> request" where
  "login_request email password =
     \<lparr>url = ''/auth/login'', http_method = ''post'',
      payload = [(''email'', email), (''password'', password)],
      authorization = None, retry = False\<rparr>"

definition login ::
  "server \<Rightarrow> string \<Rightarrow> string \<Rightarrow> browser \<Rightarrow> (api_error + response) \<times> browser" where
  "login srv email password w =
     (case api_request srv (login_request email password) w of
        (Inr resp, w1) \<Rightarrow> (Inr resp, w1)
      | (Inl err, w1) \<Rightarrow> (Inl (rethrow_validation err), w1))"

definition register_request :: "string \<Rightarrow> string \<Rightarrow> string \<Rightarrow> string option \<Rightarrow> request" where
  "register_request email username password fullName =
     \<lparr>url = ''/auth/register'', http_method = ''post'',
      payload =
        [(''email'', email), (''username'', username), (''password'', password)]
        @ (case fullName of None \<Rightarrow> [] | Some n \<Rightarrow> [(''full_name'', n)]),
      authorization = None, retry = False\<rparr>"

definition register ::
  "server \<Rightarrow> string \<Rightarrow> string \<Rightarrow> string \<Rightarrow> string option
     \<Rightarrow> browser \<Rightarrow> (api_error + response) \<times> browser" where
  "register srv email username password fullName w =
     (case api_request srv (register_request email username password fullName) w of
        (Inr resp, w1) \<Rightarrow> (Inr resp, w1)
      | (Inl err, w1) \<Rightarrow> (Inl (rethrow_validation err), w1))"

section \<open>The shade formula as the specification words it\<close>

text \<open>
  The specification gives the derivation over exact numbers: for a positive factor
  \<open>round (channel + (255 - channel) * factor)\<close>, for a negative one
  \<open>round (channel * (1 + factor))\<close>, for zero the channel itself. \<open>round\<close> is read as
  rounding to the nearest integer, halves upwards.
\<close>

definition round_half_up :: "rat \<Rightarrow> int" where
  "round_half_up x = \<lfloor>x + 1 / 2\<rfloor>"

definition spec_shade_channel :: "rat \<Rightarrow> int \<Rightarrow> int" where
  "spec_shade_channel f v =
     (if 0 < f then round_half_up (of_int v + (255 - of_int v) * f)
      else if f < 0 then round_half_up (of_int v * (1 + f))
      else v)"

definition spec_factors :: "(string \<times> rat) list" where
  "spec_factors =
     [(''50'', 95 / 100), (''100'', 90 / 100), (''200'', 80 / 100), (''300'', 60 / 100),
      (''400'', 40 / 100), (''500'', 0), (''600'', - 10 / 100), (''700'', - 20 / 100),
      (''800'', - 30 / 100), (''900'', - 40 / 100)]"

text \<open>
  The same formula over integers: for a factor \<open>p / q\<close> with \<open>0 < q\<close>, rounding halves
  upwards is an integer division. The double arithmetic of the source and the exact
  formula differ at four channel values of level 800, by one; \<open>double_rounding_loss\<close>
  names them.
\<close>

definition spec_int :: "int \<Rightarrow> int \<Rightarrow> int \<Rightarrow> int" where
  "spec_int p q v =
     (if 0 < p then (2 * q * v + 2 * p * (255 - v) + q) div (2 * q)
      else if p < 0 then (2 * (q + p) * v + q) div (2 * q)
      else v)"

definition double_rounding_loss :: "string \<Rightarrow> int \<Rightarrow> int" where
  "double_rounding_loss level v =
     (if level = ''800'' \<and> (v = 45 \<or> v = 85 \<or> v = 165 \<or> v = 175) then 1 else 0)"


text \<open>One output channel of \<open>adjustLightness\<close>, and the value it is compared with.\<close>

definition clamped :: "double \<Rightarrow> int \<Rightarrow> int" where
  "clamped amount v = max 0 (min 255 (adjust amount v))"

definition expected :: "string \<Rightarrow> int \<Rightarrow> int \<Rightarrow> int" where
  "expected level p v = spec_int p 100 v - double_rounding_loss level v"




section \<open>Example values\<close>

text \<open>
  A request, browser states and backends on which the theorems below are exercised: a
  backend that accepts only the renewed token, one that rejects every request and every
  refresh, one that fails with 500, one that answers 422 with a text, one that cannot be
  reached, one that accepts every request, and one that answers 422 with a list of field
  errors.
\<close>

definition example_request :: request where
  "example_request =
     \<lparr>url = ''/chat'', http_method = ''post'', payload = [(''message'', ''hello'')],
      authorization = None, retry = False\<rparr>"

definition example_browser :: browser where
  "example_browser =
     \<lparr>localStorage =
        [''access_token'' \<mapsto> ''old'', ''refresh_token'' \<mapsto> ''rt'', ''sidebar'' \<mapsto> ''open''],
      pathname = ''/chat'', href_assigned = [], wire = []\<rparr>"

definition access_only_browser :: browser where
  "access_only_browser =
     \<lparr>localStorage = [''access_token'' \<mapsto> ''old'', ''sidebar'' \<mapsto> ''open''],
      pathname = ''/chat'', href_assigned = [], wire = []\<rparr>"

definition login_page_browser :: browser where
  "login_page_browser = example_browser\<lparr>pathname := ''/login''\<rparr>"

definition chat_login_browser :: browser where
  "chat_login_browser = example_browser\<lparr>pathname := ''/chat/login''\<rparr>"

definition plain_response :: "nat \<Rightarrow> response" where
  "plain_response code = \<lparr>status = code, access_token = None, detail = None\<rparr>"

definition token_response :: "string \<Rightarrow> response" where
  "token_response t = \<lparr>status = 200, access_token = Some t, detail = None\<rparr>"

definition invalid_response :: response where
  "invalid_response =
     \<lparr>status = 422, access_token = None,
      detail = Some (DetailList
        [\<lparr>loc = Some [''body'', ''email''], msg = ''not a valid email''\<rparr>,
         \<lparr>loc = None, msg = ''too short''\<rparr>])\<rparr>"

definition renewing_server :: server where
  "renewing_server =
     \<lparr>answer = (\<lambda>tr rq. if authorization rq = Some ''Bearer new''
                          then Arrived (plain_response 200) else Arrived (plain_response 401)),
      refresh = (\<lambda>tr t. if t = ''rt'' then Arrived (token_response ''new'')
                         else Arrived (plain_response 401))\<rparr>"

definition rejecting_server :: server where
  "rejecting_server =
     \<lparr>answer = (\<lambda>tr rq. Arrived (plain_response 401)),
      refresh = (\<lambda>tr t. Arrived (plain_response 403))\<rparr>"

definition failing_server :: server where
  "failing_server =
     \<lparr>answer = (\<lambda>tr rq. Arrived (plain_response 500)),
      refresh = (\<lambda>tr t. Arrived (plain_response 500))\<rparr>"

definition unprocessable_response :: response where
  "unprocessable_response =
     \<lparr>status = 422, access_token = None, detail = Some (DetailOther ''Unprocessable'')\<rparr>"

definition unprocessable_server :: server where
  "unprocessable_server =
     \<lparr>answer = (\<lambda>tr rq. Arrived unprocessable_response),
      refresh = (\<lambda>tr t. Arrived (plain_response 401))\<rparr>"

definition offline_server :: server where
  "offline_server =
     \<lparr>answer = (\<lambda>tr rq. NoResponse ''Network Error''),
      refresh = (\<lambda>tr t. NoResponse ''Network Error'')\<rparr>"

definition accepting_server :: server where
  "accepting_server =
     \<lparr>answer = (\<lambda>tr rq. Arrived (plain_response 200)),
      refresh = (\<lambda>tr t. Arrived (plain_response 401))\<rparr>"

definition validating_server :: server where
  "validating_server =
     \<lparr>answer = (\<lambda>tr rq. Arrived invalid_response),
      refresh = (\<lambda>tr t. Arrived (plain_response 401))\<rparr>"


text \<open>
  A document without any custom property, a provider before its first load, and four
  variants of the default record: an unparseable primary colour, an unparseable accent
  colour, an empty primary colour, and a font family.
\<close>

definition blank_document :: document where
  "blank_document = \<lparr>style = Map.empty, body_fontFamily = None, title = ''Novera'', icon_links = []\<rparr>"

definition blank_provider :: provider where
  "blank_provider = \<lparr>customization = None, loading = True, page = blank_document\<rparr>"





definition inter_font :: Customization where
  "inter_font =
     (DEFAULT_CUSTOMIZATION ''2026-01-01T00:00:00.000Z'')
       \<lparr>typography :=
          Some \<lparr>font_family = Some ''Inter'', font_size_base = ''14px'',
                font_size_heading = ''24px''\<rparr>\<rparr>"


section \<open>Properties of the number model\<close>

text \<open>
  The literals of the shade table as doubles. \<open>0.95\<close> is
  \<open>8556839292003942 / 2 ^ 53\<close>, slightly below 19/20; \<open>1 + (-0.3)\<close> is the double of
  \<open>0.7\<close>, slightly below 7/10, and 45 times it rounds to a double below 31.5.
\<close>

lemma shades_values:
  "shades =
     [(''50'', Dbl 8556839292003942 (- 53)),
      (''100'', Dbl 8106479329266893 (- 53)),
      (''200'', Dbl 7205759403792794 (- 53)),
      (''300'', Dbl 5404319552844595 (- 53)),
      (''400'', Dbl 7205759403792794 (- 54)),
      (''500'', Dbl 0 0),
      (''600'', Dbl (- 7205759403792794) (- 56)),
      (''700'', Dbl (- 7205759403792794) (- 55)),
      (''800'', Dbl (- 5404319552844595) (- 54)),
      (''900'', Dbl (- 7205759403792794) (- 54))]"
  by code_simp


lemma one_minus_three_tenths:
  "dadd (dbl_of_int 1) (dneg (dbl_lit 3 10)) = Dbl 6305039478318694 (- 53)
   \<and> dbl_lit 7 10 = Dbl 6305039478318694 (- 53)"
  by code_simp

lemma forty_five_times_seven_tenths:
  "dmul (dbl_of_int 45) (Dbl 6305039478318694 (- 53)) = Dbl 8866461766385663 (- 48)
   \<and> dbl_value (Dbl 8866461766385663 (- 48)) < 63 / 2
   \<and> Math_round (Dbl 8866461766385663 (- 48)) = 31"
  by code_simp

lemma round_half_up_fraction:
  assumes "0 < q"
  shows "round_half_up (of_int p / of_int q) = (2 * p + q) div (2 * q)"
proof -
  have "(of_int p / of_int q :: rat) + 1 / 2 = of_int (2 * p + q) / of_int (2 * q)"
    using assms by (simp add: field_simps)
  then show ?thesis
    unfolding round_half_up_def by (simp only: floor_divide_of_int_eq)
qed

lemma spec_shade_channel_int:
  assumes "0 < q"
  shows "spec_shade_channel (of_int p / of_int q) v = spec_int p q v"
proof -
  have pos: "(0 < (of_int p / of_int q :: rat)) = (0 < p)"
    using assms by (simp add: zero_less_divide_iff)
  have neg: "((of_int p / of_int q :: rat) < 0) = (p < 0)"
    using assms by (simp add: divide_less_0_iff)
  have l: "(of_int v + (255 - of_int v) * (of_int p / of_int q) :: rat)
      = of_int (q * v + p * (255 - v)) / of_int q"
    using assms by (simp add: field_simps)
  have d: "(of_int v * (1 + of_int p / of_int q) :: rat) = of_int ((q + p) * v) / of_int q"
    using assms by (simp add: field_simps)
  show ?thesis
    unfolding spec_shade_channel_def spec_int_def pos neg l d round_half_up_fraction [OF assms]
    by (simp add: algebra_simps)
qed

lemma expected_spec:
  "expected level p v = spec_shade_channel (of_int p / of_int 100) v - double_rounding_loss level v"
proof -
  have "spec_shade_channel (of_int p / of_int 100) v = spec_int p 100 v"
    by (rule spec_shade_channel_int) simp
  then show ?thesis by (simp only: expected_def)
qed


text \<open>
  Every channel value from 0 to 255 at every level of the table, evaluated: the clamped
  result of the source's arithmetic against the exact formula.
\<close>

lemma level_50:
  "map (clamped (Dbl 8556839292003942 (- 53))) [0..255] = map (expected ''50'' 95) [0..255]"
  by code_simp

lemma level_100:
  "map (clamped (Dbl 8106479329266893 (- 53))) [0..255] = map (expected ''100'' 90) [0..255]"
  by code_simp

lemma level_200:
  "map (clamped (Dbl 7205759403792794 (- 53))) [0..255] = map (expected ''200'' 80) [0..255]"
  by code_simp

lemma level_300:
  "map (clamped (Dbl 5404319552844595 (- 53))) [0..255] = map (expected ''300'' 60) [0..255]"
  by code_simp

lemma level_400:
  "map (clamped (Dbl 7205759403792794 (- 54))) [0..255] = map (expected ''400'' 40) [0..255]"
  by code_simp

lemma level_500:
  "map (clamped (Dbl 0 0)) [0..255] = map (expected ''500'' 0) [0..255]"
  by code_simp

lemma level_600:
  "map (clamped (Dbl (- 7205759403792794) (- 56))) [0..255] = map (expected ''600'' (- 10)) [0..255]"
  by code_simp

lemma level_700:
  "map (clamped (Dbl (- 7205759403792794) (- 55))) [0..255] = map (expected ''700'' (- 20)) [0..255]"
  by code_simp

lemma level_800:
  "map (clamped (Dbl (- 5404319552844595) (- 54))) [0..255] = map (expected ''800'' (- 30)) [0..255]"
  by code_simp

lemma level_900:
  "map (clamped (Dbl (- 7205759403792794) (- 54))) [0..255] = map (expected ''900'' (- 40)) [0..255]"
  by code_simp

lemma pointwise:
  assumes "map f [0..255] = map h [0..255]" and "0 \<le> v" and "v \<le> 255"
  shows "f v = h v"
proof -
  have "v \<in> set [0..255]" using assms(2,3) by simp
  with assms(1) show ?thesis by (simp only: map_eq_conv)
qed

lemma channel_table:
  assumes "0 \<le> v" and "v \<le> 255"
    and "(level, amount) \<in> set shades" and "(level, f) \<in> set spec_factors"
  shows "clamped amount v = spec_shade_channel f v - double_rounding_loss level v"
proof -
  from assms(3) have
    "level = ''50'' \<and> amount = Dbl 8556839292003942 (- 53) \<or>
     level = ''100'' \<and> amount = Dbl 8106479329266893 (- 53) \<or>
     level = ''200'' \<and> amount = Dbl 7205759403792794 (- 53) \<or>
     level = ''300'' \<and> amount = Dbl 5404319552844595 (- 53) \<or>
     level = ''400'' \<and> amount = Dbl 7205759403792794 (- 54) \<or>
     level = ''500'' \<and> amount = Dbl 0 0 \<or>
     level = ''600'' \<and> amount = Dbl (- 7205759403792794) (- 56) \<or>
     level = ''700'' \<and> amount = Dbl (- 7205759403792794) (- 55) \<or>
     level = ''800'' \<and> amount = Dbl (- 5404319552844595) (- 54) \<or>
     level = ''900'' \<and> amount = Dbl (- 7205759403792794) (- 54)"
    by (simp add: shades_values)
  then show ?thesis
  proof (elim disjE conjE)
    assume lv: "level = ''50''" and am: "amount = Dbl 8556839292003942 (- 53)"
    from assms(4) lv have fv: "f = of_int (95) / of_int 100" by (simp add: spec_factors_def)
    show ?thesis
      using pointwise [OF level_50 assms(1,2)] by (simp only: lv am fv expected_spec)
  next
    assume lv: "level = ''100''" and am: "amount = Dbl 8106479329266893 (- 53)"
    from assms(4) lv have fv: "f = of_int (90) / of_int 100" by (simp add: spec_factors_def)
    show ?thesis
      using pointwise [OF level_100 assms(1,2)] by (simp only: lv am fv expected_spec)
  next
    assume lv: "level = ''200''" and am: "amount = Dbl 7205759403792794 (- 53)"
    from assms(4) lv have fv: "f = of_int (80) / of_int 100" by (simp add: spec_factors_def)
    show ?thesis
      using pointwise [OF level_200 assms(1,2)] by (simp only: lv am fv expected_spec)
  next
    assume lv: "level = ''300''" and am: "amount = Dbl 5404319552844595 (- 53)"
    from assms(4) lv have fv: "f = of_int (60) / of_int 100" by (simp add: spec_factors_def)
    show ?thesis
      using pointwise [OF level_300 assms(1,2)] by (simp only: lv am fv expected_spec)
  next
    assume lv: "level = ''400''" and am: "amount = Dbl 7205759403792794 (- 54)"
    from assms(4) lv have fv: "f = of_int (40) / of_int 100" by (simp add: spec_factors_def)
    show ?thesis
      using pointwise [OF level_400 assms(1,2)] by (simp only: lv am fv expected_spec)
  next
    assume lv: "level = ''500''" and am: "amount = Dbl 0 0"
    from assms(4) lv have fv: "f = of_int (0) / of_int 100" by (simp add: spec_factors_def)
    show ?thesis
      using pointwise [OF level_500 assms(1,2)] by (simp only: lv am fv expected_spec)
  next
    assume lv: "level = ''600''" and am: "amount = Dbl (- 7205759403792794) (- 56)"
    from assms(4) lv have fv: "f = of_int (- 10) / of_int 100" by (simp add: spec_factors_def)
    show ?thesis
      using pointwise [OF level_600 assms(1,2)] by (simp only: lv am fv expected_spec)
  next
    assume lv: "level = ''700''" and am: "amount = Dbl (- 7205759403792794) (- 55)"
    from assms(4) lv have fv: "f = of_int (- 20) / of_int 100" by (simp add: spec_factors_def)
    show ?thesis
      using pointwise [OF level_700 assms(1,2)] by (simp only: lv am fv expected_spec)
  next
    assume lv: "level = ''800''" and am: "amount = Dbl (- 5404319552844595) (- 54)"
    from assms(4) lv have fv: "f = of_int (- 30) / of_int 100" by (simp add: spec_factors_def)
    show ?thesis
      using pointwise [OF level_800 assms(1,2)] by (simp only: lv am fv expected_spec)
  next
    assume lv: "level = ''900''" and am: "amount = Dbl (- 7205759403792794) (- 54)"
    from assms(4) lv have fv: "f = of_int (- 40) / of_int 100" by (simp add: spec_factors_def)
    show ?thesis
      using pointwise [OF level_900 assms(1,2)] by (simp only: lv am fv expected_spec)
  qed
qed


section \<open>Properties of the colour helpers\<close>

lemma hex_digit_range: "hex_digit c = Some d \<Longrightarrow> 0 \<le> d \<and> d \<le> 15"
  by (auto simp: hex_digit_def Let_def split: if_splits)

lemma six_digits_Some:
  assumes "six_digits ds = Some c"
  obtains d1 d2 d3 d4 d5 d6 where "ds = [Some d1, Some d2, Some d3, Some d4, Some d5, Some d6]"
    and "c = \<lparr>r = parseInt16 d1 d2, g = parseInt16 d3 d4, b = parseInt16 d5 d6\<rparr>"
  using assms by (cases ds rule: six_digits.cases) auto

lemma hexToRgb_range:
  assumes "hexToRgb hex = Some c"
  shows "0 \<le> r c \<and> r c \<le> 255 \<and> 0 \<le> g c \<and> g c \<le> 255 \<and> 0 \<le> b c \<and> b c \<le> 255"
proof -
  from assms obtain d1 d2 d3 d4 d5 d6
    where ds: "map hex_digit (strip_hash hex) = [Some d1, Some d2, Some d3, Some d4, Some d5, Some d6]"
      and c: "c = \<lparr>r = parseInt16 d1 d2, g = parseInt16 d3 d4, b = parseInt16 d5 d6\<rparr>"
    unfolding hexToRgb_def by (rule six_digits_Some)
  from ds obtain ch1 ch2 ch3 ch4 ch5 ch6 where "hex_digit ch1 = Some d1" "hex_digit ch2 = Some d2"
    "hex_digit ch3 = Some d3" "hex_digit ch4 = Some d4" "hex_digit ch5 = Some d5"
    "hex_digit ch6 = Some d6"
    by (auto simp: map_eq_Cons_conv)
  then have "0 \<le> d1 \<and> d1 \<le> 15" "0 \<le> d2 \<and> d2 \<le> 15" "0 \<le> d3 \<and> d3 \<le> 15"
    "0 \<le> d4 \<and> d4 \<le> 15" "0 \<le> d5 \<and> d5 \<le> 15" "0 \<le> d6 \<and> d6 \<le> 15"
    by (auto dest: hex_digit_range)
  with c show ?thesis by (simp add: parseInt16_def)
qed

lemma parse_examples:
  "hexToRgb [] = None"
  "hexToRgb ''red'' = None"
  "hexToRgb ''#fff'' = None"
  "hexToRgb ''#0ea5e9'' = Some \<lparr>r = 14, g = 165, b = 233\<rparr>"
  "hexToRgb ''#d946ef'' = Some \<lparr>r = 217, g = 70, b = 239\<rparr>"
  "hexToRgb ''#8b5cf6'' = Some \<lparr>r = 139, g = 92, b = 246\<rparr>"
  by code_simp+


text \<open>
  Claim C5, as amended. For a colour string that \<open>hexToRgb\<close> accepts and a level of the
  table, each channel of the derived shade is the formula of the specification at the
  level's factor, rounded halves upwards, except for the channel values 45, 85, 165 and
  175 at level 800, where the double product falls just below the half and the result is
  one less. The worked value of the claim is not the value of the formula: for
  \<open>#0EA5E9\<close> at level 50 the red channel 14 becomes 243.
\<close>

theorem shade_channels_follow_formula:
  assumes "hexToRgb hex = Some c"
    and "(level, amount) \<in> set shades" and "(level, f) \<in> set spec_factors"
  shows "r (adjustLightness c amount) = spec_shade_channel f (r c) - double_rounding_loss level (r c)
     \<and> g (adjustLightness c amount) = spec_shade_channel f (g c) - double_rounding_loss level (g c)
     \<and> b (adjustLightness c amount) = spec_shade_channel f (b c) - double_rounding_loss level (b c)"
  using hexToRgb_range [OF assms(1)] channel_table [OF _ _ assms(2,3)]
  by (simp add: adjustLightness_def clamped_def)


text \<open>
  The theorem at \<open>#0EA5E9\<close>: level 50 gives (243, 251, 254), level 900 gives (8, 99, 140).
\<close>

theorem shade_channels_follow_formula_witness:
  "adjustLightness \<lparr>r = 14, g = 165, b = 233\<rparr> (dbl_lit 95 100) = \<lparr>r = 243, g = 251, b = 254\<rparr>
   \<and> adjustLightness \<lparr>r = 14, g = 165, b = 233\<rparr> (dneg (dbl_lit 4 10)) = \<lparr>r = 8, g = 99, b = 140\<rparr>"
proof -
  have h: "hexToRgb ''#0EA5E9'' = Some \<lparr>r = 14, g = 165, b = 233\<rparr>"
    by code_simp
  have s50: "(''50'', dbl_lit 95 100) \<in> set shades"
    and s900: "(''900'', dneg (dbl_lit 4 10)) \<in> set shades"
    by (simp_all add: shades_def)
  have f50: "(''50'', 95 / 100) \<in> set spec_factors"
    and f900: "(''900'', - 40 / 100) \<in> set spec_factors"
    by (simp_all add: spec_factors_def)
  have v: "spec_shade_channel (95 / 100) 14 = 243" "spec_shade_channel (95 / 100) 165 = 251"
    "spec_shade_channel (95 / 100) 233 = 254"
    "spec_shade_channel (- 40 / 100) 14 = 8" "spec_shade_channel (- 40 / 100) 165 = 99"
    "spec_shade_channel (- 40 / 100) 233 = 140"
    by code_simp+
  have eq: "x = \<lparr>r = r x, g = g x, b = b x\<rparr>" for x :: rgb
    by simp
  from shade_channels_follow_formula [OF h s50 f50] shade_channels_follow_formula [OF h s900 f900] v
  have "r (adjustLightness \<lparr>r = 14, g = 165, b = 233\<rparr> (dbl_lit 95 100)) = 243
      \<and> g (adjustLightness \<lparr>r = 14, g = 165, b = 233\<rparr> (dbl_lit 95 100)) = 251
      \<and> b (adjustLightness \<lparr>r = 14, g = 165, b = 233\<rparr> (dbl_lit 95 100)) = 254
      \<and> r (adjustLightness \<lparr>r = 14, g = 165, b = 233\<rparr> (dneg (dbl_lit 4 10))) = 8
      \<and> g (adjustLightness \<lparr>r = 14, g = 165, b = 233\<rparr> (dneg (dbl_lit 4 10))) = 99
      \<and> b (adjustLightness \<lparr>r = 14, g = 165, b = 233\<rparr> (dneg (dbl_lit 4 10))) = 140"
    by (simp add: double_rounding_loss_def)
  then show ?thesis
    using eq [of "adjustLightness \<lparr>r = 14, g = 165, b = 233\<rparr> (dbl_lit 95 100)"]
      eq [of "adjustLightness \<lparr>r = 14, g = 165, b = 233\<rparr> (dneg (dbl_lit 4 10))"]
    by simp
qed

text \<open>
  The claim as it is written fails twice. Its example: the red channel of \<open>#0EA5E9\<close> at
  level 50 is 243 in the code and in the formula, not 244. Its formula: for \<open>#2D0000\<close>
  at level 800 the code gives the red channel 31, the exact formula 32.
\<close>

theorem shade_formula_counterexample:
  "hexToRgb ''#0EA5E9'' = Some \<lparr>r = 14, g = 165, b = 233\<rparr>
   \<and> map_of shades ''50'' = Some (dbl_lit 95 100)
   \<and> r (adjustLightness \<lparr>r = 14, g = 165, b = 233\<rparr> (dbl_lit 95 100)) = 243
   \<and> spec_shade_channel (95 / 100) 14 = 243
   \<and> hexToRgb ''#2D0000'' = Some \<lparr>r = 45, g = 0, b = 0\<rparr>
   \<and> map_of shades ''800'' = Some (dneg (dbl_lit 3 10))
   \<and> r (adjustLightness \<lparr>r = 45, g = 0, b = 0\<rparr> (dneg (dbl_lit 3 10))) = 31
   \<and> spec_shade_channel (- 30 / 100) 45 = 32"
  by code_simp


text \<open>
  Claim C6. For channels from 0 to 255 and a level of the table, every output channel of
  \<open>adjustLightness\<close> lies between 0 and 255, and each is computed from the input channel
  of the same name alone: replacing the other two channels does not change it.
\<close>

theorem shade_channels_bounded:
  assumes "0 \<le> r c \<and> r c \<le> 255" and "0 \<le> g c \<and> g c \<le> 255" and "0 \<le> b c \<and> b c \<le> 255"
    and "(level, amount) \<in> set shades"
  shows "0 \<le> r (adjustLightness c amount) \<and> r (adjustLightness c amount) \<le> 255
     \<and> 0 \<le> g (adjustLightness c amount) \<and> g (adjustLightness c amount) \<le> 255
     \<and> 0 \<le> b (adjustLightness c amount) \<and> b (adjustLightness c amount) \<le> 255
     \<and> r (adjustLightness c amount) = r (adjustLightness (c\<lparr>g := y, b := z\<rparr>) amount)
     \<and> g (adjustLightness c amount) = g (adjustLightness (c\<lparr>r := x, b := z\<rparr>) amount)
     \<and> b (adjustLightness c amount) = b (adjustLightness (c\<lparr>r := x, g := y\<rparr>) amount)"
  by (simp add: adjustLightness_def)


theorem shade_channels_bounded_witness:
  "0 \<le> r (adjustLightness \<lparr>r = 14, g = 165, b = 233\<rparr> (dbl_lit 95 100))
   \<and> r (adjustLightness \<lparr>r = 14, g = 165, b = 233\<rparr> (dbl_lit 95 100)) \<le> 255
   \<and> r (adjustLightness \<lparr>r = 14, g = 165, b = 233\<rparr> (dbl_lit 95 100))
       = r (adjustLightness \<lparr>r = 14, g = 0, b = 255\<rparr> (dbl_lit 95 100))"
proof -
  have s: "(''50'', dbl_lit 95 100) \<in> set shades"
    by (simp add: shades_def)
  from shade_channels_bounded
    [where c = "\<lparr>r = 14, g = 165, b = 233\<rparr>" and x = 0 and y = 0 and z = 255, OF _ _ _ s]
  show ?thesis by simp
qed

section \<open>Properties of the theme engine\<close>

lemma style_setProperty [simp]:
  "style (setProperty name v d) = (style d)(name := (if v = [] then None else Some v))"
  by (simp add: setProperty_def)

lemma rgb_css_not_empty [simp]: "rgb_css c \<noteq> []"
  by (simp add: rgb_css_def)

lemma rgb_triple_not_empty [simp]: "rgb_triple c \<noteq> []"
  by (simp add: rgb_triple_def)

lemma shade_variable_eq [simp]:
  "(shade_variable name l = shade_variable name l') = (l = l')"
  by (simp add: shade_variable_def)

lemma style_foldl_set_shade_other:
  assumes "key \<notin> shade_variable name ` fst ` set xs"
  shows "style (foldl (set_shade c name) d xs) key = style d key"
  using assms by (induction xs rule: rev_induct) (auto simp: set_shade_def)





lemma generateColorShades_other:
  assumes "key \<notin> shade_variable name ` fst ` set shades"
  shows "style (generateColorShades baseColor name d) key = style d key"
  using assms by (simp add: generateColorShades_def style_foldl_set_shade_other split: option.splits)


lemma style_applyTheme:
  "style (applyTheme env cz d) =
     style (apply_shades (colors cz) (apply_layout (layout cz)
       (apply_typography (typography cz) (apply_colors (colors cz) d))))"
  by (simp add: applyTheme_def apply_title_def apply_favicon_def updateFavicon_def Let_def
      split: list.splits)

lemma style_apply_colors:
  "style (apply_colors cs d) =
     (style d)
       (''--color-primary'' := (if primary cs = [] then None else Some (primary cs)),
        ''--color-secondary'' := (if secondary cs = [] then None else Some (secondary cs)),
        ''--color-accent'' := (if accent cs = [] then None else Some (accent cs)),
        ''--color-background'' := (if background cs = [] then None else Some (background cs)),
        ''--color-sidebar'' := (if sidebar cs = [] then None else Some (sidebar cs)),
        ''--color-text-primary'' :=
          (if text_primary cs = [] then None else Some (text_primary cs)),
        ''--color-text-secondary'' :=
          (if text_secondary cs = [] then None else Some (text_secondary cs)),
        ''--color-button-primary'' :=
          (if button_primary cs = [] then None else Some (button_primary cs)),
        ''--color-button-text'' :=
          (if button_text cs = [] then None else Some (button_text cs)))"
  by (simp add: apply_colors_def)

lemma style_apply_typography_other:
  assumes "key \<noteq> ''--font-family''" and "key \<noteq> ''--font-size-base''"
    and "key \<noteq> ''--font-size-heading''"
  shows "style (apply_typography ty d) key = style d key"
  using assms by (simp add: apply_typography_def Let_def split: option.splits)

lemma style_apply_layout_other:
  assumes "key \<noteq> ''--border-radius''" and "key \<noteq> ''--spacing-unit''"
  shows "style (apply_layout ly d) key = style d key"
  using assms by (simp add: apply_layout_def split: option.splits)






















text \<open>The list \<open>theme_variables\<close> is complete: \<open>applyTheme\<close> writes no other variable.\<close>

lemma applyTheme_writes_theme_variables_only:
  assumes "key \<notin> set theme_variables"
  shows "style (applyTheme env cz d) key = style d key"
proof -
  from assms have ramps: "key \<notin> shade_variable ''primary'' ` fst ` set shades"
    "key \<notin> shade_variable ''secondary'' ` fst ` set shades"
    "key \<notin> shade_variable ''accent'' ` fst ` set shades"
    and direct: "key \<noteq> ''--color-primary-rgb''" "key \<noteq> ''--border-radius''"
    "key \<noteq> ''--spacing-unit''" "key \<noteq> ''--font-family''" "key \<noteq> ''--font-size-base''"
    "key \<noteq> ''--font-size-heading''"
    and base: "key \<notin> {''--color-primary'', ''--color-secondary'', ''--color-accent'',
      ''--color-background'', ''--color-sidebar'', ''--color-text-primary'',
      ''--color-text-secondary'', ''--color-button-primary'', ''--color-button-text''}"
    by (auto simp: theme_variables_def)
  have "style (apply_shades (colors cz) d') key = style d' key" for d'
    using ramps direct(1)
    by (simp add: apply_shades_def generateColorShades_other split: option.splits)
  then show ?thesis
    using direct base
    by (simp add: style_applyTheme style_apply_layout_other style_apply_typography_other
        style_apply_colors)
qed


lemma dom_set_shade:
  "dom (style (set_shade c name d x)) = insert (shade_variable name (fst x)) (dom (style d))"
  by (simp add: set_shade_def)

lemma dom_foldl_set_shade:
  "dom (style (foldl (set_shade c name) d xs)) = dom (style d) \<union> shade_variable name ` fst ` set xs"
  by (induction xs rule: rev_induct) (simp_all add: dom_set_shade)

lemma dom_generateColorShades:
  assumes "hexToRgb baseColor = Some c"
  shows "dom (style (generateColorShades baseColor name d))
     = dom (style d) \<union> shade_variable name ` fst ` set shades"
  using assms by (simp add: generateColorShades_def dom_foldl_set_shade)

lemma default_theme_sets:
  assumes "v \<in> set theme_variables" and "v \<noteq> ''--font-family''"
  shows "v \<in> dom (style (applyTheme env (DEFAULT_CUSTOMIZATION now) d))"
proof -
  let ?c = "DEFAULT_CUSTOMIZATION now"
  let ?below = "apply_layout (layout ?c) (apply_typography (typography ?c)
    (apply_colors (colors ?c) d))"
  let ?ramps = "shade_variable ''primary'' ` fst ` set shades
    \<union> shade_variable ''secondary'' ` fst ` set shades
    \<union> shade_variable ''accent'' ` fst ` set shades"
  let ?direct = "{''--color-primary'', ''--color-secondary'', ''--color-accent'',
    ''--color-background'', ''--color-sidebar'', ''--color-text-primary'',
    ''--color-text-secondary'', ''--color-button-primary'', ''--color-button-text'',
    ''--font-size-base'', ''--font-size-heading'', ''--border-radius'', ''--spacing-unit''}"
  have below: "?direct \<subseteq> dom (style ?below)"
    by (simp add: DEFAULT_CUSTOMIZATION_def apply_layout_def apply_typography_def truthy_def
        apply_colors_def Let_def)
  have above: "dom (style (apply_shades (colors ?c) ?below))
      = insert ''--color-primary-rgb'' (dom (style ?below)) \<union> ?ramps"
    by (simp add: DEFAULT_CUSTOMIZATION_def apply_shades_def parse_examples
        dom_generateColorShades Un_assoc)
  from assms have "v \<in> ?direct \<or> v = ''--color-primary-rgb'' \<or> v \<in> ?ramps"
    by (auto simp: theme_variables_def)
  then show ?thesis
  proof (elim disjE)
    assume "v \<in> ?direct"
    with below have "v \<in> dom (style ?below)" by (rule subsetD)
    then show ?thesis
      unfolding style_applyTheme above by (simp only: Un_iff insert_iff simp_thms)
  next
    assume "v = ''--color-primary-rgb''"
    then show ?thesis
      unfolding style_applyTheme above by (simp only: Un_iff insert_iff simp_thms)
  next
    assume "v \<in> ?ramps"
    then show ?thesis
      unfolding style_applyTheme above by (simp only: Un_iff insert_iff simp_thms)
  qed
qed

lemma font_family_default_theme:
  "style (applyTheme env (DEFAULT_CUSTOMIZATION now) d) ''--font-family''
     = style d ''--font-family''"
proof -
  have "''--font-family'' \<notin> shade_variable name ` fst ` set shades" for name
    by (auto simp: shade_variable_def)
  then show ?thesis
    by (simp add: style_applyTheme DEFAULT_CUSTOMIZATION_def apply_shades_def parse_examples
        generateColorShades_other apply_layout_def apply_typography_def truthy_def
        apply_colors_def Let_def)
qed


text \<open>
  Claim C8, as amended. When the fetch fails, \<open>loadCustomization\<close> returns normally: it
  stores the default record, applies it to the document and clears the loading flag.
  After that every variable of the theme engine is set, except \<open>--font-family\<close>, which
  the default record does not supply (its \<open>font_family\<close> is \<open>null\<close>) and which keeps
  the value it had.
\<close>

theorem failed_fetch_applies_default:
  "loadCustomization env now (Inl err) s =
     Inr (s\<lparr>customization := Some (DEFAULT_CUSTOMIZATION now),
            page := applyTheme env (DEFAULT_CUSTOMIZATION now) (page s),
            loading := False\<rparr>)
   \<and> (\<forall>v \<in> set theme_variables. v \<noteq> ''--font-family'' \<longrightarrow>
        style (applyTheme env (DEFAULT_CUSTOMIZATION now) (page s)) v \<noteq> None)
   \<and> style (applyTheme env (DEFAULT_CUSTOMIZATION now) (page s)) ''--font-family''
       = style (page s) ''--font-family''"
proof -
  have "v \<in> dom (style (applyTheme env (DEFAULT_CUSTOMIZATION now) (page s)))"
    if "v \<in> set theme_variables" and "v \<noteq> ''--font-family''" for v
    using that by (rule default_theme_sets)
  then have "\<forall>v \<in> set theme_variables. v \<noteq> ''--font-family'' \<longrightarrow>
        style (applyTheme env (DEFAULT_CUSTOMIZATION now) (page s)) v \<noteq> None"
    by blast
  then show ?thesis
    by (simp add: loadCustomization_def font_family_default_theme)
qed


theorem failed_fetch_applies_default_witness:
  "style (page (projr (loadCustomization None ''2026-01-01T00:00:00.000Z''
        (Inl ''Network Error'') blank_provider))) ''--color-primary'' \<noteq> None
   \<and> style (page (projr (loadCustomization None ''2026-01-01T00:00:00.000Z''
        (Inl ''Network Error'') blank_provider))) (shade_variable ''accent'' ''900'') \<noteq> None
   \<and> loading (projr (loadCustomization None ''2026-01-01T00:00:00.000Z''
        (Inl ''Network Error'') blank_provider)) = False"
  using failed_fetch_applies_default [of None "''2026-01-01T00:00:00.000Z''" "''Network Error''" blank_provider]
  by (simp add: theme_variables_def shades_def shade_variable_def)


text \<open>
  The claim as it is written fails for \<open>--font-family\<close>: it is a variable of the theme
  engine, set for a record with a font family, and it is unset after a failed load into
  a document without custom properties.
\<close>

theorem default_leaves_font_family_unset:
  "\<not> isl (loadCustomization None ''2026-01-01T00:00:00.000Z'' (Inl ''Network Error'') blank_provider)
   \<and> style (page (projr (loadCustomization None ''2026-01-01T00:00:00.000Z''
        (Inl ''Network Error'') blank_provider))) ''--font-family'' = None
   \<and> ''--font-family'' \<in> set theme_variables
   \<and> style (applyTheme None inter_font blank_document) ''--font-family'' = Some ''Inter''"
proof -
  have "''--font-family'' \<notin> shade_variable name ` fst ` set shades" for name
    by (auto simp: shade_variable_def)
  then have "style (applyTheme None inter_font blank_document) ''--font-family'' = Some ''Inter''"
    by (simp add: style_applyTheme inter_font_def DEFAULT_CUSTOMIZATION_def apply_shades_def
        parse_examples generateColorShades_other apply_layout_def apply_typography_def
        truthy_def Let_def)
  then show ?thesis
    by (simp add: loadCustomization_def font_family_default_theme blank_provider_def
        blank_document_def theme_variables_def)
qed


section \<open>Properties of the API client\<close>

lemma retry_request_interceptor [simp]: "retry (request_interceptor w config) = retry config"
  by (simp add: request_interceptor_def Let_def)

lemma retried_request_settles:
  assumes "retry config"
  shows "api_request srv config w =
     (settle (answer srv (wire w) (request_interceptor w config)),
      w\<lparr>wire := wire w @ [Sent (request_interceptor w config)]\<rparr>)"
  using assms
  by (simp add: api_request.simps [of srv config w] Let_def split: sum.splits)

lemma settle_Inl_iff:
  "(settle rp = Inl e) =
     (case rp of
        Arrived resp \<Rightarrow> (status resp < 200 \<or> 300 \<le> status resp) \<and> e = HttpError resp
      | NoResponse m \<Rightarrow> e = NetworkError m)"
  by (auto simp: settle_def split: reply.splits)

lemma unauthorized_without_refresh_token:
  assumes "\<not> retry config"
    and "answer srv (wire w) (request_interceptor w config) = Arrived resp"
    and "status resp = 401"
    and "\<not> truthy (localStorage w ''refresh_token'')"
  shows "api_request srv config w =
     (Inl (HttpError resp),
      no_refresh_token (w\<lparr>wire := wire w @ [Sent (request_interceptor w config)]\<rparr>))"
  using assms
  by (simp add: api_request.simps [of srv config w] Let_def settle_def status_of_def)

lemma unauthorized_refresh_rejected:
  assumes "\<not> retry config"
    and "answer srv (wire w) (request_interceptor w config) = Arrived resp"
    and "status resp = 401"
    and "truthy (localStorage w ''refresh_token'')"
    and "settle (refresh srv (wire w @ [Sent (request_interceptor w config)])
           (the (localStorage w ''refresh_token''))) = Inl refreshError"
  shows "api_request srv config w =
     (Inl refreshError,
      refresh_failed
        (w\<lparr>wire := wire w @ [Sent (request_interceptor w config),
                               RefreshPosted (the (localStorage w ''refresh_token''))]\<rparr>))"
  using assms
  by (simp add: api_request.simps [of srv config w] Let_def settle_def [of "Arrived resp"]
      status_of_def)

lemma other_status_settles:
  assumes "answer srv (wire w) (request_interceptor w config) = Arrived resp"
    and "status resp \<noteq> 401"
  shows "api_request srv config w =
     (settle (Arrived resp), w\<lparr>wire := wire w @ [Sent (request_interceptor w config)]\<rparr>)"
  using assms
  by (simp add: api_request.simps [of srv config w] Let_def settle_def status_of_def)

lemma rethrow_validation_list:
  assumes "status resp = 422" and "detail resp = Some (DetailList items)"
  shows "rethrow_validation (HttpError resp) = PlainError (join ''; '' (map item_message items))"
  using assms by (simp add: rethrow_validation_def status_of_def handleValidationError_def)

lemma rethrow_validation_unlisted:
  assumes "\<forall>r l. err = HttpError r \<longrightarrow> status r = 422 \<longrightarrow> detail r \<noteq> Some (DetailList l)"
  shows "rethrow_validation err = err"
  using assms
  by (auto simp: rethrow_validation_def status_of_def handleValidationError_def
      split: api_error.splits option.splits detail.splits)

lemma no_response_settles:
  assumes "answer srv (wire w) (request_interceptor w config) = NoResponse m"
  shows "api_request srv config w =
     (Inl (NetworkError m), w\<lparr>wire := wire w @ [Sent (request_interceptor w config)]\<rparr>)"
  using assms
  by (simp add: api_request.simps [of srv config w] Let_def settle_def status_of_def)

lemma rethrow_validation_other:
  assumes "status resp \<noteq> 422 \<or> (\<forall>items. detail resp \<noteq> Some (DetailList items))"
  shows "rethrow_validation (HttpError resp) = HttpError resp"
  using assms
  by (auto simp: rethrow_validation_def status_of_def handleValidationError_def
      split: option.splits detail.splits)


text \<open>
  Claim C1. A request that is not marked as retried gets a 401, a refresh token is in
  storage, and the refresh call resolves. Then the call returns what the resent request
  settles to, and nothing else: the network has seen the first request, the refresh call
  and one resend, the resend carries the flag and \<open>Bearer\<close> with the new token, and the
  new token is stored under \<open>access_token\<close>; nothing else of the browser state changes.
  The flag set on the request configuration travels with it into the resend.
\<close>

theorem refresh_success_resends_once:
  assumes "\<not> retry config"
    and "sent = request_interceptor w config"
    and "answer srv (wire w) sent = Arrived resp" and "status resp = 401"
    and "truthy (localStorage w ''refresh_token'')"
    and "rt = the (localStorage w ''refresh_token'')"
    and "refresh srv (wire w @ [Sent sent]) rt = Arrived rresp"
    and "200 \<le> status rresp" and "status rresp < 300"
    and "token = js_string (access_token rresp)"
    and "resent = sent\<lparr>retry := True, authorization := Some (''Bearer '' @ token)\<rparr>"
  shows "api_request srv config w =
     (settle (answer srv (wire w @ [Sent sent, RefreshPosted rt]) resent),
      w\<lparr>wire := wire w @ [Sent sent, RefreshPosted rt, Sent resent],
        localStorage := (localStorage w)(''access_token'' \<mapsto> token)\<rparr>)"
proof -
  let ?w3 = "w\<lparr>wire := wire w @ [Sent sent, RefreshPosted rt],
               localStorage := (localStorage w)(''access_token'' \<mapsto> token)\<rparr>"
  have first: "api_request srv config w = api_request srv resent ?w3"
    using assms
    by (simp add: api_request.simps [of srv config w] Let_def settle_def status_of_def)
  have same: "request_interceptor ?w3 resent = resent"
    using assms(11) by (simp add: request_interceptor_def truthy_def Let_def)
  have "retry resent" using assms(11) by simp
  from retried_request_settles [OF this, of srv ?w3] same
  have second: "api_request srv resent ?w3 =
     (settle (answer srv (wire ?w3) resent), ?w3\<lparr>wire := wire ?w3 @ [Sent resent]\<rparr>)"
    by simp
  show ?thesis unfolding first second by simp
qed


theorem refresh_success_resends_once_witness:
  "api_request renewing_server example_request example_browser =
     (Inr (plain_response 200),
      example_browser
        \<lparr>wire :=
           [Sent (example_request\<lparr>authorization := Some ''Bearer old''\<rparr>),
            RefreshPosted ''rt'',
            Sent (example_request\<lparr>retry := True, authorization := Some ''Bearer new''\<rparr>)],
         localStorage := (localStorage example_browser)(''access_token'' \<mapsto> ''new'')\<rparr>)"
proof -
  have "api_request renewing_server example_request example_browser =
     (settle (answer renewing_server
         (wire example_browser @
            [Sent (example_request\<lparr>authorization := Some ''Bearer old''\<rparr>), RefreshPosted ''rt''])
         (example_request\<lparr>retry := True, authorization := Some ''Bearer new''\<rparr>)),
      example_browser
        \<lparr>wire := wire example_browser @
           [Sent (example_request\<lparr>authorization := Some ''Bearer old''\<rparr>),
            RefreshPosted ''rt'',
            Sent (example_request\<lparr>retry := True, authorization := Some ''Bearer new''\<rparr>)],
         localStorage := (localStorage example_browser)(''access_token'' \<mapsto> ''new'')\<rparr>)"
    by (rule refresh_success_resends_once [where resp = "plain_response 401" and rresp = "token_response ''new''"])
       (simp_all add: example_request_def example_browser_def renewing_server_def
          plain_response_def token_response_def request_interceptor_def truthy_def
          js_string_def Let_def)
  then show ?thesis
    by (simp add: example_request_def example_browser_def renewing_server_def
        plain_response_def settle_def)
qed


text \<open>
  Claim C2. A request marked as retried that gets a 401 is rejected with that response:
  the network has seen this one request, no refresh call and no resend, and storage and
  location are unchanged.
\<close>

theorem retried_request_is_not_retried:
  assumes "retry config"
    and "answer srv (wire w) (request_interceptor w config) = Arrived resp"
    and "status resp = 401"
  shows "api_request srv config w =
     (Inl (HttpError resp), w\<lparr>wire := wire w @ [Sent (request_interceptor w config)]\<rparr>)"
  using assms retried_request_settles [of config srv w] by (simp add: settle_def)


theorem retried_request_is_not_retried_witness:
  "api_request rejecting_server (example_request\<lparr>retry := True\<rparr>) example_browser =
     (Inl (HttpError (plain_response 401)),
      example_browser
        \<lparr>wire := [Sent (example_request\<lparr>retry := True, authorization := Some ''Bearer old''\<rparr>)]\<rparr>)"
  using retried_request_is_not_retried [of "example_request\<lparr>retry := True\<rparr>" rejecting_server example_browser
      "plain_response 401"]
  by (simp add: example_request_def example_browser_def rejecting_server_def
      plain_response_def request_interceptor_def truthy_def Let_def)


text \<open>
  Claim C3. A request that is not marked as retried gets a 401 and storage holds no
  refresh token (none, or the empty string). Then storage is cleared, \<open>/login\<close> is
  assigned to the location, the network has seen the request and no refresh call, and
  the call is rejected with the 401 response.
\<close>

theorem missing_refresh_token_gives_up:
  assumes "\<not> retry config"
    and "answer srv (wire w) (request_interceptor w config) = Arrived resp"
    and "status resp = 401"
    and "\<not> truthy (localStorage w ''refresh_token'')"
  shows "api_request srv config w =
     (Inl (HttpError resp),
      w\<lparr>localStorage := Map.empty,
        href_assigned := href_assigned w @ [''/login''],
        wire := wire w @ [Sent (request_interceptor w config)]\<rparr>)"
  using unauthorized_without_refresh_token [OF assms] by (simp add: no_refresh_token_def)


theorem missing_refresh_token_gives_up_witness:
  "api_request rejecting_server example_request access_only_browser =
     (Inl (HttpError (plain_response 401)),
      access_only_browser
        \<lparr>localStorage := Map.empty,
         href_assigned := [''/login''],
         wire := [Sent (example_request\<lparr>authorization := Some ''Bearer old''\<rparr>)]\<rparr>)"
  using missing_refresh_token_gives_up [of example_request rejecting_server access_only_browser "plain_response 401"]
  by (simp add: example_request_def access_only_browser_def rejecting_server_def
      plain_response_def request_interceptor_def truthy_def Let_def)


text \<open>
  Claim C4. A request that is not marked as retried gets a 401, a refresh token is in
  storage, and the refresh call is rejected (\<open>settle\<close> rejects a status outside 200 to
  299 and a missing response, see \<open>settle_Inl_iff\<close>). Then \<open>access_token\<close> and
  \<open>refresh_token\<close> are removed and the call is rejected with the error of the refresh
  call, as the claim says. The redirect differs from the claim: \<open>/login\<close> is assigned to
  the location unless the path contains \<open>/login\<close> anywhere. That test holds on the login
  page, and it also holds on other pages, such as \<open>/chat/login\<close>, which \<open>App.tsx\<close>
  routes to the chat page (\<open>/chat/:conversationId\<close>): there the session is removed and
  no redirect is made, against the claim and against the comment of the source
  (\<open>Don't redirect if already on login page\<close>).
\<close>

theorem refresh_failure_gives_up:
  assumes "\<not> retry config"
    and "answer srv (wire w) (request_interceptor w config) = Arrived resp"
    and "status resp = 401"
    and "truthy (localStorage w ''refresh_token'')"
    and "settle (refresh srv (wire w @ [Sent (request_interceptor w config)])
           (the (localStorage w ''refresh_token''))) = Inl refreshError"
  shows "api_request srv config w =
     (Inl refreshError,
      w\<lparr>localStorage := (localStorage w)(''access_token'' := None, ''refresh_token'' := None),
        href_assigned :=
          (if str_includes (pathname w) ''/login'' then href_assigned w
           else href_assigned w @ [''/login'']),
        wire := wire w @ [Sent (request_interceptor w config),
                          RefreshPosted (the (localStorage w ''refresh_token''))]\<rparr>)"
  using unauthorized_refresh_rejected [OF assms] by (simp add: refresh_failed_def)


theorem refresh_failure_gives_up_witness:
  "api_request rejecting_server example_request example_browser =
     (Inl (HttpError (plain_response 403)),
      example_browser
        \<lparr>localStorage := [''sidebar'' \<mapsto> ''open''],
         href_assigned := [''/login''],
         wire := [Sent (example_request\<lparr>authorization := Some ''Bearer old''\<rparr>),
                  RefreshPosted ''rt'']\<rparr>)
   \<and> api_request rejecting_server example_request login_page_browser =
     (Inl (HttpError (plain_response 403)),
      login_page_browser
        \<lparr>localStorage := [''sidebar'' \<mapsto> ''open''],
         href_assigned := [],
         wire := [Sent (example_request\<lparr>authorization := Some ''Bearer old''\<rparr>),
                  RefreshPosted ''rt'']\<rparr>)
   \<and> pathname chat_login_browser = ''/chat/login''
   \<and> api_request rejecting_server example_request chat_login_browser =
     (Inl (HttpError (plain_response 403)),
      chat_login_browser
        \<lparr>localStorage := [''sidebar'' \<mapsto> ''open''],
         href_assigned := [],
         wire := [Sent (example_request\<lparr>authorization := Some ''Bearer old''\<rparr>),
                  RefreshPosted ''rt'']\<rparr>)"
  using
    refresh_failure_gives_up [of example_request rejecting_server example_browser
      "plain_response 401" "HttpError (plain_response 403)"]
    refresh_failure_gives_up [of example_request rejecting_server login_page_browser
      "plain_response 401" "HttpError (plain_response 403)"]
    refresh_failure_gives_up [of example_request rejecting_server chat_login_browser
      "plain_response 401" "HttpError (plain_response 403)"]
  by (simp add: example_request_def example_browser_def login_page_browser_def
      chat_login_browser_def rejecting_server_def plain_response_def request_interceptor_def
      truthy_def settle_def Let_def fun_upd_twist)


text \<open>
  Claim C9, as amended. For a response with a status other than 401 the interceptors
  settle the call on that response and send nothing else: a status from 200 to 299
  resolves, any other is rejected with the response unchanged; a call without a response
  is rejected with its network error. The operations \<open>login\<close> and \<open>register\<close> pass a
  resolved response on; a rejection that is a 422 response whose \<open>detail\<close> is a list they
  replace by a new error, whose message joins the entries; every other rejection (a 422
  whose \<open>detail\<close> is no list, any other status, an error without a response) they pass
  on unchanged.
\<close>

theorem other_status_passes_interceptor:
  "(answer srv (wire w) (request_interceptor w config) = Arrived resp \<longrightarrow>
      status resp \<noteq> 401 \<longrightarrow>
      api_request srv config w =
        (settle (Arrived resp), w\<lparr>wire := wire w @ [Sent (request_interceptor w config)]\<rparr>))
   \<and> (answer srv (wire w) (request_interceptor w config) = NoResponse m \<longrightarrow>
      api_request srv config w =
        (Inl (NetworkError m), w\<lparr>wire := wire w @ [Sent (request_interceptor w config)]\<rparr>))
   \<and> (api_request srv (login_request email password) w = (Inr ok, w') \<longrightarrow>
      login srv email password w = (Inr ok, w'))
   \<and> (api_request srv (login_request email password) w = (Inl (HttpError rejected), w') \<longrightarrow>
      status rejected = 422 \<longrightarrow> detail rejected = Some (DetailList items) \<longrightarrow>
      login srv email password w
        = (Inl (PlainError (join ''; '' (map item_message items))), w'))
   \<and> (api_request srv (login_request email password) w = (Inl err, w') \<longrightarrow>
      (\<forall>r l. err = HttpError r \<longrightarrow> status r = 422 \<longrightarrow> detail r \<noteq> Some (DetailList l)) \<longrightarrow>
      login srv email password w = (Inl err, w'))
   \<and> (api_request srv (register_request email username password fullName) w = (Inr ok, w') \<longrightarrow>
      register srv email username password fullName w = (Inr ok, w'))
   \<and> (api_request srv (register_request email username password fullName) w
        = (Inl (HttpError rejected), w') \<longrightarrow>
      status rejected = 422 \<longrightarrow> detail rejected = Some (DetailList items) \<longrightarrow>
      register srv email username password fullName w
        = (Inl (PlainError (join ''; '' (map item_message items))), w'))
   \<and> (api_request srv (register_request email username password fullName) w = (Inl err, w') \<longrightarrow>
      (\<forall>r l. err = HttpError r \<longrightarrow> status r = 422 \<longrightarrow> detail r \<noteq> Some (DetailList l)) \<longrightarrow>
      register srv email username password fullName w = (Inl err, w'))"
proof -
  have listed: "rethrow_validation (HttpError rejected)
      = PlainError (join ''; '' (map item_message items))"
    if "status rejected = 422" and "detail rejected = Some (DetailList items)"
    using that by (rule rethrow_validation_list)
  have other: "rethrow_validation err = err"
    if "\<forall>r l. err = HttpError r \<longrightarrow> status r = 422 \<longrightarrow> detail r \<noteq> Some (DetailList l)"
    using that by (rule rethrow_validation_unlisted)
  show ?thesis
    by (simp add: other_status_settles no_response_settles login_def register_def listed other)
qed

theorem other_status_passes_interceptor_witness:
  "login validating_server ''ann'' ''pw'' access_only_browser =
     (Inl (PlainError ''body.email: not a valid email; undefined: too short''),
      access_only_browser
        \<lparr>wire := [Sent ((login_request ''ann'' ''pw'')\<lparr>authorization := Some ''Bearer old''\<rparr>)]\<rparr>)
   \<and> register validating_server ''ann@example.org'' ''ann'' ''pw'' None access_only_browser =
     (Inl (PlainError ''body.email: not a valid email; undefined: too short''),
      access_only_browser
        \<lparr>wire := [Sent ((register_request ''ann@example.org'' ''ann'' ''pw'' None)
                     \<lparr>authorization := Some ''Bearer old''\<rparr>)]\<rparr>)
   \<and> login unprocessable_server ''ann'' ''pw'' access_only_browser =
     (Inl (HttpError unprocessable_response),
      access_only_browser
        \<lparr>wire := [Sent ((login_request ''ann'' ''pw'')\<lparr>authorization := Some ''Bearer old''\<rparr>)]\<rparr>)
   \<and> register failing_server ''ann@example.org'' ''ann'' ''pw'' None access_only_browser =
     (Inl (HttpError (plain_response 500)),
      access_only_browser
        \<lparr>wire := [Sent ((register_request ''ann@example.org'' ''ann'' ''pw'' None)
                     \<lparr>authorization := Some ''Bearer old''\<rparr>)]\<rparr>)
   \<and> login offline_server ''ann'' ''pw'' access_only_browser =
     (Inl (NetworkError ''Network Error''),
      access_only_browser
        \<lparr>wire := [Sent ((login_request ''ann'' ''pw'')\<lparr>authorization := Some ''Bearer old''\<rparr>)]\<rparr>)
   \<and> login accepting_server ''ann'' ''pw'' access_only_browser =
     (Inr (plain_response 200),
      access_only_browser
        \<lparr>wire := [Sent ((login_request ''ann'' ''pw'')\<lparr>authorization := Some ''Bearer old''\<rparr>)]\<rparr>)
   \<and> register accepting_server ''ann@example.org'' ''ann'' ''pw'' None access_only_browser =
     (Inr (plain_response 200),
      access_only_browser
        \<lparr>wire := [Sent ((register_request ''ann@example.org'' ''ann'' ''pw'' None)
                     \<lparr>authorization := Some ''Bearer old''\<rparr>)]\<rparr>)"
proof -
  let ?w = access_only_browser
  let ?l = "login_request ''ann'' ''pw''"
  let ?r = "register_request ''ann@example.org'' ''ann'' ''pw'' None"
  let ?wl = "?w\<lparr>wire := [Sent (?l\<lparr>authorization := Some ''Bearer old''\<rparr>)]\<rparr>"
  let ?wr = "?w\<lparr>wire := [Sent (?r\<lparr>authorization := Some ''Bearer old''\<rparr>)]\<rparr>"
  let ?items = "[\<lparr>loc = Some [''body'', ''email''], msg = ''not a valid email''\<rparr>,
                 \<lparr>loc = None, msg = ''too short''\<rparr>]"
  have sent: "request_interceptor ?w rq = rq\<lparr>authorization := Some ''Bearer old''\<rparr>" for rq
    by (simp add: request_interceptor_def access_only_browser_def truthy_def Let_def)
  have empty: "wire ?w = []"
    by (simp add: access_only_browser_def)
  note inst = other_status_passes_interceptor [where w = ?w and email = "''ann''"
      and password = "''pw''" and w' = ?wl]
  note insr = other_status_passes_interceptor [where w = ?w and email = "''ann@example.org''"
      and username = "''ann''" and password = "''pw''" and fullName = None and w' = ?wr]
  have v_login: "api_request validating_server ?l ?w = (Inl (HttpError invalid_response), ?wl)"
    using inst [where srv = validating_server and config = ?l and resp = invalid_response]
    by (simp add: sent empty validating_server_def invalid_response_def settle_def)
  have v_register: "api_request validating_server ?r ?w = (Inl (HttpError invalid_response), ?wr)"
    using insr [where srv = validating_server and config = ?r and resp = invalid_response]
    by (simp add: sent empty validating_server_def invalid_response_def settle_def)
  have u_login: "api_request unprocessable_server ?l ?w
      = (Inl (HttpError unprocessable_response), ?wl)"
    using inst [where srv = unprocessable_server and config = ?l
        and resp = unprocessable_response]
    by (simp add: sent empty unprocessable_server_def unprocessable_response_def settle_def)
  have f_register: "api_request failing_server ?r ?w = (Inl (HttpError (plain_response 500)), ?wr)"
    using insr [where srv = failing_server and config = ?r and resp = "plain_response 500"]
    by (simp add: sent empty failing_server_def plain_response_def settle_def)
  have o_login: "api_request offline_server ?l ?w = (Inl (NetworkError ''Network Error''), ?wl)"
    using inst [where srv = offline_server and config = ?l and m = "''Network Error''"]
    by (simp add: sent empty offline_server_def)
  have a_login: "api_request accepting_server ?l ?w = (Inr (plain_response 200), ?wl)"
    using inst [where srv = accepting_server and config = ?l and resp = "plain_response 200"]
    by (simp add: sent empty accepting_server_def plain_response_def settle_def)
  have a_register: "api_request accepting_server ?r ?w = (Inr (plain_response 200), ?wr)"
    using insr [where srv = accepting_server and config = ?r and resp = "plain_response 200"]
    by (simp add: sent empty accepting_server_def plain_response_def settle_def)
  have "login validating_server ''ann'' ''pw'' ?w
      = (Inl (PlainError (join ''; '' (map item_message ?items))), ?wl)"
    using inst [where srv = validating_server and rejected = invalid_response
        and items = ?items] v_login
    by (simp add: invalid_response_def)
  moreover have "register validating_server ''ann@example.org'' ''ann'' ''pw'' None ?w
      = (Inl (PlainError (join ''; '' (map item_message ?items))), ?wr)"
    using insr [where srv = validating_server and rejected = invalid_response
        and items = ?items] v_register
    by (simp add: invalid_response_def)
  moreover have "login unprocessable_server ''ann'' ''pw'' ?w
      = (Inl (HttpError unprocessable_response), ?wl)"
    using inst [where srv = unprocessable_server and err = "HttpError unprocessable_response"]
      u_login
    by (simp add: unprocessable_response_def)
  moreover have "register failing_server ''ann@example.org'' ''ann'' ''pw'' None ?w
      = (Inl (HttpError (plain_response 500)), ?wr)"
    using insr [where srv = failing_server and err = "HttpError (plain_response 500)"]
      f_register
    by (simp add: plain_response_def)
  moreover have "login offline_server ''ann'' ''pw'' ?w
      = (Inl (NetworkError ''Network Error''), ?wl)"
    using inst [where srv = offline_server and err = "NetworkError ''Network Error''"] o_login
    by simp
  moreover have "login accepting_server ''ann'' ''pw'' ?w = (Inr (plain_response 200), ?wl)"
    using inst [where srv = accepting_server and ok = "plain_response 200"] a_login
    by simp
  moreover have "register accepting_server ''ann@example.org'' ''ann'' ''pw'' None ?w
      = (Inr (plain_response 200), ?wr)"
    using insr [where srv = accepting_server and ok = "plain_response 200"] a_register
    by simp
  ultimately show ?thesis
    by (simp add: item_message_def js_string_def)
qed


text \<open>
  The claim as it is written fails for \<open>login\<close>: the interceptors reject with the 422
  response, the caller of \<open>login\<close> receives a plain error with the joined messages.
\<close>

theorem login_replaces_validation_error:
  "fst (api_request validating_server (login_request ''ann'' ''pw'') access_only_browser)
     = Inl (HttpError invalid_response)
   \<and> fst (login validating_server ''ann'' ''pw'' access_only_browser)
     = Inl (PlainError ''body.email: not a valid email; undefined: too short'')"
proof -
  have "api_request validating_server (login_request ''ann'' ''pw'') access_only_browser =
      (settle (Arrived invalid_response),
       access_only_browser\<lparr>wire := wire access_only_browser @
          [Sent (request_interceptor access_only_browser (login_request ''ann'' ''pw''))]\<rparr>)"
    by (rule other_status_settles)
       (simp_all add: validating_server_def invalid_response_def)
  then show ?thesis
    by (simp add: login_def settle_def invalid_response_def status_of_def
        rethrow_validation_def handleValidationError_def item_message_def js_string_def)
qed


text \<open>
  Claim C10. After a 401 on a request that is not marked as retried: without a refresh
  token every key of \<open>localStorage\<close> is gone; with a refresh token whose refresh call is
  rejected, exactly \<open>access_token\<close> and \<open>refresh_token\<close> are gone and every other key
  holds what it held.
\<close>

theorem unrecoverable_paths_storage:
  assumes "\<not> retry config"
    and "answer srv (wire w) (request_interceptor w config) = Arrived resp"
    and "status resp = 401"
    and "api_request srv config w = (outcome, w')"
  shows "(\<not> truthy (localStorage w ''refresh_token'') \<longrightarrow> localStorage w' key = None)
     \<and> (truthy (localStorage w ''refresh_token'') \<longrightarrow>
          settle (refresh srv (wire w @ [Sent (request_interceptor w config)])
            (the (localStorage w ''refresh_token''))) = Inl refreshError \<longrightarrow>
          localStorage w' key =
            (if key = ''access_token'' \<or> key = ''refresh_token'' then None
             else localStorage w key))"
proof -
  have "localStorage w' key = None" if "\<not> truthy (localStorage w ''refresh_token'')"
    using unauthorized_without_refresh_token [OF assms(1-3) that] assms(4)
    by (auto simp: no_refresh_token_def)
  moreover have "localStorage w' key =
         (if key = ''access_token'' \<or> key = ''refresh_token'' then None else localStorage w key)"
    if "truthy (localStorage w ''refresh_token'')"
      and "settle (refresh srv (wire w @ [Sent (request_interceptor w config)])
           (the (localStorage w ''refresh_token''))) = Inl refreshError"
    using unauthorized_refresh_rejected [OF assms(1-3) that] assms(4)
    by (auto simp: refresh_failed_def)
  ultimately show ?thesis by blast
qed


theorem unrecoverable_paths_storage_witness:
  "localStorage (snd (api_request rejecting_server example_request access_only_browser))
       ''sidebar'' = None
   \<and> localStorage (snd (api_request rejecting_server example_request example_browser))
       ''sidebar'' = Some ''open''
   \<and> localStorage (snd (api_request rejecting_server example_request example_browser))
       ''access_token'' = None
   \<and> localStorage (snd (api_request rejecting_server example_request example_browser))
       ''refresh_token'' = None"
  using
    unrecoverable_paths_storage [of example_request rejecting_server access_only_browser "plain_response 401"
      "fst (api_request rejecting_server example_request access_only_browser)"
      "snd (api_request rejecting_server example_request access_only_browser)"
      "''sidebar''" "HttpError (plain_response 403)"]
    unrecoverable_paths_storage [of example_request rejecting_server example_browser "plain_response 401"
      "fst (api_request rejecting_server example_request example_browser)"
      "snd (api_request rejecting_server example_request example_browser)"
      "''sidebar''" "HttpError (plain_response 403)"]
    unrecoverable_paths_storage [of example_request rejecting_server example_browser "plain_response 401"
      "fst (api_request rejecting_server example_request example_browser)"
      "snd (api_request rejecting_server example_request example_browser)"
      "''access_token''" "HttpError (plain_response 403)"]
    unrecoverable_paths_storage [of example_request rejecting_server example_browser "plain_response 401"
      "fst (api_request rejecting_server example_request example_browser)"
      "snd (api_request rejecting_server example_request example_browser)"
      "''refresh_token''" "HttpError (plain_response 403)"]
  by (simp add: example_request_def example_browser_def access_only_browser_def
      rejecting_server_def plain_response_def request_interceptor_def truthy_def settle_def
      Let_def)

end
